theory Spec2Isabelle
  imports Complex_Main "HOL-Library.AList"
begin

section \<open>Data model of the ticket and cart state machine\<close>

text \<open>
  The shop bot keeps one dictionary per open ticket in \<open>bot.active_tickets\<close> and loads and
  saves the collections \<open>products\<close>, \<open>orders\<close>, \<open>discounts\<close>, \<open>referrals\<close> and
  \<open>counters\<close> by name. Python dictionaries keep insertion order and have unique keys, so each
  of them is an association list read with \<open>map_of\<close> and written with \<open>AList.update\<close>
  (which overwrites in place and appends a new key at the end) and \<open>AList.delete\<close>.

  Conventions of the embedding:
  \<^item> identities (users, channels, roles) are Python integers, hence \<open>int\<close>;
  \<^item> money is a Python float; it is idealised as an exact rational, so rounding is not
    modelled;
  \<^item> a dictionary key that may be missing is an \<open>option\<close> field, \<open>None\<close> standing for the
    missing key (and, where the source only tests truthiness, for a null or empty value);
    every \<open>d.get(k, default)\<close> of the source is written out as a case distinction with
    that default; a JSON \<open>null\<close> stored under a key that is read as a number is not
    modelled;
  \<^item> a collection of the model holds what the last \<open>save_json\<close> was given, and \<open>load_json\<close>
    returns it, with one exception that main.py makes: the loader of the discounts builds
    every entry with \<open>'used': False\<close> and the saver writes no such column, so a handler
    reads the \<open>used\<close> flags through \<open>load_discounts\<close> below; a handler that changes its
    loaded copy and returns before saving leaves the collection as it was;
  \<^item> rendering (embeds, follow-up messages, thread renaming, \<open>cart_message_id\<close>) is reduced
    to the reply a handler sends; the staff claim and the order timestamp are left out.
\<close>

record cart_item =
  name :: string
  price :: rat
  quantity :: int

type_synonym cart = "(string \<times> cart_item) list"

text \<open>A stored stock is a JSON integer or some text that \<open>int()\<close> refuses.\<close>

datatype stock_val = Stock int | Stock_invalid

text \<open>
  A catalog entry. A missing price is read as 0.0 by \<open>product.get('price', 0.0)\<close>; a price
  stored as \<open>null\<close> (a custom quote, which the cart cannot total) is outside the model.
\<close>

record product =
  p_name :: string
  p_price :: "rat option"
  p_stock :: "stock_val option"

record ticket_state =
  creator_id :: "int option"
  category :: "string option"
  status :: "string option"
  cart :: cart
  discount :: "rat option"
  discount_reason :: "string option"
  referral_info :: "(string \<times> int) option"
  order_id :: "string option"
  gift_recipient_id :: "int option"

record order =
  o_user_id :: int
  o_items :: cart
  o_status :: string
  o_discount :: rat
  o_discount_reason :: string
  o_gift_recipient_id :: "int option"
  o_channel_id :: int

datatype max_uses_val = Finite_uses int | Unlimited

datatype expiry = Aware_time int | Naive_time | Malformed_time

record discount_info =
  d_type :: "string option"
  d_discount_inr :: "rat option"
  d_used :: "bool option"
  d_generated_by :: "int option"
  d_max_uses :: "max_uses_val option"
  d_uses :: "int option"
  d_expires_at :: "expiry option"
  d_is_active :: "bool option"

datatype referrer_entry = Referrer_id int | Referrer_empty | Referrer_corrupt

record role_discount =
  role_id :: "int option"
  discount_percent :: "rat option"

datatype gateway = Gateway_missing | Gateway_raises | Gateway_ok

record actor =
  user_id :: int
  is_member :: bool
  roles :: "int list"

record bot =
  active_tickets :: "(int \<times> ticket_state) list"
  products :: "(string \<times> product) list"
  orders :: "(string \<times> order) list"
  discounts :: "(string \<times> discount_info) list"
  referrals :: "(string \<times> referrer_entry) list"
  counters :: "(string \<times> int) list"
  new_user_discount_inr :: "rat option"
  role_based_discounts :: "role_discount list"
  payment_cog :: gateway

section \<open>Adding a product to the cart\<close>

text \<open>
  \<open>ProductSelect.callback\<close> (cogs/ticket\_system.py). \<open>int(product.get('stock', 0))\<close> reads a
  missing stock as 0 and raises \<open>ValueError\<close> on text that is no integer; \<open>-1\<close> is the
  sentinel for unlimited stock.
\<close>

datatype add_reply =
  No_products | Ticket_inactive | Product_not_found | Invalid_stock | Stock_exceeded | Added

fun int_of_stock :: "stock_val option \<Rightarrow> int option" where
  "int_of_stock None = Some 0"
| "int_of_stock (Some (Stock n)) = Some n"
| "int_of_stock (Some Stock_invalid) = None"

definition quantity_in_cart :: "cart \<Rightarrow> string \<Rightarrow> int" where
  "quantity_in_cart c pid = (case map_of c pid of None \<Rightarrow> 0 | Some i \<Rightarrow> quantity i)"

definition price_or_zero :: "rat option \<Rightarrow> rat" where
  "price_or_zero p = (case p of None \<Rightarrow> 0 | Some x \<Rightarrow> x)"

definition add_to_cart :: "cart \<Rightarrow> string \<Rightarrow> product \<Rightarrow> cart" where
  "add_to_cart c pid product =
     (case map_of c pid of
        Some i \<Rightarrow> AList.update pid (i\<lparr>quantity := quantity i + 1\<rparr>) c
      | None \<Rightarrow>
          AList.update pid
            \<lparr>name = p_name product, price = price_or_zero (p_price product), quantity = 1\<rparr> c)"

definition set_ticket :: "bot \<Rightarrow> int \<Rightarrow> ticket_state \<Rightarrow> bot" where
  "set_ticket b channel ts = b\<lparr>active_tickets := AList.update channel ts (active_tickets b)\<rparr>"

definition callback :: "bot \<Rightarrow> int \<Rightarrow> string \<Rightarrow> add_reply \<times> bot" where
  "callback b channel val =
     (if val = ''disabled'' then (No_products, b)
      else case map_of (active_tickets b) channel of
        None \<Rightarrow> (Ticket_inactive, b)
      | Some ts \<Rightarrow>
          (case map_of (products b) val of
             None \<Rightarrow> (Product_not_found, b)
           | Some product \<Rightarrow>
               (case int_of_stock (p_stock product) of
                  None \<Rightarrow> (Invalid_stock, b)
                | Some stock \<Rightarrow>
                    if stock \<noteq> - 1 \<and> stock \<le> quantity_in_cart (cart ts) val
                    then (Stock_exceeded, b)
                    else (Added,
                      set_ticket b channel
                        (ts\<lparr>cart := add_to_cart (cart ts) val product\<rparr>)))))"

section \<open>Applying a discount code\<close>

text \<open>
  \<open>DiscountCodeModal.on_submit\<close>. The argument \<open>code\<close> is the submitted text after
  \<open>strip().upper()\<close>; \<open>now\<close> is the clock read by the expiry test. An expiry text is
  an ISO timestamp with an offset (\<open>Aware_time\<close>), one without (comparing it with the
  offset-aware clock raises \<open>TypeError\<close>, which the handler does not catch), or text that
  \<open>fromisoformat\<close> refuses (\<open>ValueError\<close>, caught and treated as no expiry).
\<close>

datatype apply_reply =
  Ticket_lost | Already_discounted
| Invalid_referral | Corrupt_referral | Own_referral | Not_new_customer
| Referral_unconfigured | Referral_not_positive | Referral_applied rat
| Invalid_code | Redeem_already_used | Redeem_not_yours
| Promo_inactive | Promo_maxed | Promo_expired | Unknown_code_type
| Amount_missing | Amount_not_positive | Discount_applied rat
| Raised_type_error

definition discount_or_zero :: "ticket_state \<Rightarrow> rat" where
  "discount_or_zero ts = (case discount ts of None \<Rightarrow> 0 | Some d \<Rightarrow> d)"

definition has_past_orders :: "(string \<times> order) list \<Rightarrow> int \<Rightarrow> bool" where
  "has_past_orders odb uid =
     list_ex (\<lambda>(oid, ord). o_user_id ord = uid \<and> o_status ord = ''Delivered'') odb"

definition apply_referral ::
  "bot \<Rightarrow> int \<Rightarrow> ticket_state \<Rightarrow> actor \<Rightarrow> string \<Rightarrow> apply_reply \<times> bot" where
  "apply_referral b channel ts user code =
     (case map_of (referrals b) code of
        None \<Rightarrow> (Invalid_referral, b)
      | Some Referrer_empty \<Rightarrow> (Invalid_referral, b)
      | Some Referrer_corrupt \<Rightarrow> (Corrupt_referral, b)
      | Some (Referrer_id referrer) \<Rightarrow>
          if user_id user = referrer then (Own_referral, b)
          else if has_past_orders (orders b) (user_id user) then (Not_new_customer, b)
          else (case new_user_discount_inr b of
                  None \<Rightarrow> (Referral_unconfigured, b)
                | Some amount \<Rightarrow>
                    if amount \<le> 0 then (Referral_not_positive, b)
                    else (Referral_applied amount,
                      set_ticket b channel
                        (ts\<lparr>discount := Some amount,
                            discount_reason := Some (''Referral Discount (Code: '' @ code @ '')''),
                            referral_info := Some (code, referrer)\<rparr>))))"

definition current_uses :: "discount_info \<Rightarrow> int" where
  "current_uses info = (case d_uses info of None \<Rightarrow> 0 | Some u \<Rightarrow> u)"

text \<open>The three promo tests, in the source's order; \<open>None\<close> lets the code through.\<close>

definition promo_rejection :: "int \<Rightarrow> discount_info \<Rightarrow> apply_reply option" where
  "promo_rejection now info =
     (if \<not> (case d_is_active info of None \<Rightarrow> True | Some a \<Rightarrow> a) then Some Promo_inactive
      else if (case d_max_uses info of
                 None \<Rightarrow> False
               | Some Unlimited \<Rightarrow> False
               | Some (Finite_uses m) \<Rightarrow> m \<le> current_uses info) then Some Promo_maxed
      else (case d_expires_at info of
              None \<Rightarrow> None
            | Some Malformed_time \<Rightarrow> None
            | Some Naive_time \<Rightarrow> Some Raised_type_error
            | Some (Aware_time t) \<Rightarrow> if t < now then Some Promo_expired else None))"

text \<open>
  The common tail: the amount is read after the registry copy was marked, and the copy is
  saved only once the ticket carries the discount.
\<close>

definition finish_code ::
  "bot \<Rightarrow> int \<Rightarrow> ticket_state \<Rightarrow> string \<Rightarrow> discount_info \<Rightarrow> apply_reply \<times> bot" where
  "finish_code b channel ts code info' =
     (case d_discount_inr info' of
        None \<Rightarrow> (Amount_missing, b)
      | Some amount \<Rightarrow>
          if amount \<le> 0 then (Amount_not_positive, b)
          else (Discount_applied amount,
            (set_ticket b channel
               (ts\<lparr>discount := Some amount,
                   discount_reason := Some (''Discount Code ('' @ code @ '')'')\<rparr>))
             \<lparr>discounts := AList.update code info' (discounts b)\<rparr>))"

text \<open>
  What \<open>load_json('discounts')\<close> returns for the saved registry: \<open>_load_data_from_db\<close> in
  main.py sets \<open>'used': False\<close> in every entry, and \<open>_save_data_to_db\<close> stores the type,
  the amount, the use limit and counter, the expiry, the active flag and the generator,
  but not \<open>used\<close>.
\<close>

definition load_discounts ::
  "(string \<times> discount_info) list \<Rightarrow> (string \<times> discount_info) list" where
  "load_discounts saved = map (\<lambda>(code, info). (code, info\<lparr>d_used := Some False\<rparr>)) saved"

text \<open>\<open>discount_info.get("type", "promo")\<close>: a code without a type is promotional.\<close>

definition code_type :: "discount_info \<Rightarrow> string" where
  "code_type info = (case d_type info of None \<Rightarrow> ''promo'' | Some t \<Rightarrow> t)"

definition apply_code ::
  "bot \<Rightarrow> int \<Rightarrow> ticket_state \<Rightarrow> actor \<Rightarrow> string \<Rightarrow> int \<Rightarrow> apply_reply \<times> bot" where
  "apply_code b channel ts user code now =
     (case map_of (discounts b) code of
        None \<Rightarrow> (Invalid_code, b)
      | Some info \<Rightarrow>
          if code_type info = ''redeem'' then
            (if map_option d_used (map_of (load_discounts (discounts b)) code) = Some (Some True)
             then (Redeem_already_used, b)
             else if (case d_generated_by info of None \<Rightarrow> False | Some g \<Rightarrow> user_id user \<noteq> g)
               then (Redeem_not_yours, b)
             else finish_code b channel ts code (info\<lparr>d_used := Some True\<rparr>))
          else if code_type info = ''promo'' then
            (case promo_rejection now info of
               Some r \<Rightarrow> (r, b)
             | None \<Rightarrow>
                 finish_code b channel ts code (info\<lparr>d_uses := Some (current_uses info + 1)\<rparr>))
          else (Unknown_code_type, b))"

definition on_submit :: "bot \<Rightarrow> int \<Rightarrow> actor \<Rightarrow> string \<Rightarrow> int \<Rightarrow> apply_reply \<times> bot" where
  "on_submit b channel user code now =
     (case map_of (active_tickets b) channel of
        None \<Rightarrow> (Ticket_lost, b)
      | Some ts \<Rightarrow>
          if 0 < discount_or_zero ts then (Already_discounted, b)
          else if take 4 code = ''REF-'' then apply_referral b channel ts user code
          else apply_code b channel ts user code now)"

section \<open>The cart display\<close>

text \<open>
  \<open>ShoppingCartView.update_cart_embed\<close> writes the footer \<open>Grand Total\<close>: 0 for an empty
  cart, and otherwise \<open>max(0.0, total - discount)\<close>, where the discount is read with
  default 0.
\<close>

definition cart_total :: "cart \<Rightarrow> rat" where
  "cart_total c = sum_list (map (\<lambda>(pid, i). price i * of_int (quantity i)) c)"

definition grand_total :: "cart \<Rightarrow> rat \<Rightarrow> rat" where
  "grand_total c d = (if c = [] then 0 else max 0 (cart_total c - d))"

definition displayed_total :: "ticket_state \<Rightarrow> rat" where
  "displayed_total ts = grand_total (cart ts) (discount_or_zero ts)"

section \<open>Confirming the cart\<close>

text \<open>Decimal text of integers, as \<open>str\<close> and the format \<open>04d\<close> produce it.\<close>

fun str_nat :: "nat \<Rightarrow> string" where
  "str_nat n =
     (if n < 10 then [''0123456789'' ! n]
      else str_nat (n div 10) @ [''0123456789'' ! (n mod 10)])"

declare str_nat.simps [simp del]

definition str_int :: "int \<Rightarrow> string" where
  "str_int i = (if i < 0 then CHR ''-'' # str_nat (nat (- i)) else str_nat (nat i))"

definition format_04d :: "int \<Rightarrow> string" where
  "format_04d i =
     (let ds = str_nat (nat \<bar>i\<bar>) in
      if i < 0 then CHR ''-'' # replicate (3 - length ds) (CHR ''0'') @ ds
      else replicate (4 - length ds) (CHR ''0'') @ ds)"

text \<open>
  The text of a percentage in the discount reason. A whole percentage prints as the
  integer it is in the configuration file; the text Python gives a fractional float is not
  modelled, and such a value prints as numerator and denominator here.
\<close>

definition str_percent :: "rat \<Rightarrow> string" where
  "str_percent p =
     (case quotient_of p of (n, d) \<Rightarrow>
        if d = 1 then str_int n else str_int n @ ''/'' @ str_int d)"

datatype confirm_reply =
  Cart_empty | Product_missing string | Stock_data_invalid string
| Insufficient_stock string int int
| Gateway_not_loaded | Unexpected_error | Order_confirmed string

text \<open>The stock loop of \<open>confirm\<close>: the first cart line that fails ends the handler.\<close>

fun validate_stock :: "(string \<times> product) list \<Rightarrow> cart \<Rightarrow> confirm_reply option" where
  "validate_stock pdb [] = None"
| "validate_stock pdb ((pid, item) # rest) =
     (case map_of pdb pid of
        None \<Rightarrow> Some (Product_missing pid)
      | Some info \<Rightarrow>
          (case int_of_stock (p_stock info) of
             None \<Rightarrow> Some (Stock_data_invalid pid)
           | Some available \<Rightarrow>
               if available \<noteq> - 1 \<and> available < quantity item
               then Some (Insufficient_stock pid available (quantity item))
               else validate_stock pdb rest))"

text \<open>
  \<open>sorted(role_discounts_config, key=..., reverse=True)\<close>: a missing percentage sorts as 0,
  and a reversed sort keeps entries with equal keys in their original order.
\<close>

definition percent_key :: "role_discount \<Rightarrow> rat" where
  "percent_key r = (case discount_percent r of None \<Rightarrow> 0 | Some p \<Rightarrow> p)"

definition sorted_role_discounts :: "role_discount list \<Rightarrow> role_discount list" where
  "sorted_role_discounts cfg = rev (sort_key percent_key (rev cfg))"

text \<open>
  The loop over the sorted tiers stops (\<open>break\<close>) at the first entry with a truthy role id
  and a percentage whose role the actor holds.
\<close>

fun first_held :: "int list \<Rightarrow> role_discount list \<Rightarrow> (int \<times> rat) option" where
  "first_held rs [] = None"
| "first_held rs (r # rest) =
     (case (role_id r, discount_percent r) of
        (Some rid, Some p) \<Rightarrow>
          if rid \<noteq> 0 \<and> rid \<in> set rs then Some (rid, p) else first_held rs rest
      | _ \<Rightarrow> first_held rs rest)"

definition role_reason :: "rat \<Rightarrow> int \<Rightarrow> string" where
  "role_reason p rid = str_percent p @ ''% Role Discount (for <@&'' @ str_int rid @ ''>)''"

definition apply_role_discount :: "bot \<Rightarrow> actor \<Rightarrow> ticket_state \<Rightarrow> ticket_state" where
  "apply_role_discount b user ts =
     (let final_discount = discount_or_zero ts in
      if final_discount = 0 \<and> is_member user then
        (case first_held (roles user) (sorted_role_discounts (role_based_discounts b)) of
           None \<Rightarrow> ts\<lparr>discount := Some final_discount\<rparr>
         | Some (rid, p) \<Rightarrow>
             let calculated_discount = cart_total (cart ts) * (p / 100) in
             if final_discount < calculated_discount
             then ts\<lparr>discount := Some calculated_discount,
                     discount_reason := Some (role_reason p rid)\<rparr>
             else ts\<lparr>discount := Some final_discount\<rparr>)
      else ts\<lparr>discount := Some final_discount\<rparr>)"

definition next_order_number :: "bot \<Rightarrow> int" where
  "next_order_number b =
     (case map_of (counters b) ''last_order_number'' of None \<Rightarrow> 0 | Some n \<Rightarrow> n) + 1"

definition new_order :: "int \<Rightarrow> actor \<Rightarrow> ticket_state \<Rightarrow> order" where
  "new_order channel user ts =
     \<lparr>o_user_id = user_id user, o_items = cart ts, o_status = ''Pending Payment'',
      o_discount = discount_or_zero ts,
      o_discount_reason = (case discount_reason ts of None \<Rightarrow> ''No Discount'' | Some r \<Rightarrow> r),
      o_gift_recipient_id = gift_recipient_id ts, o_channel_id = channel\<rparr>"

text \<open>
  \<open>ShoppingCartView.confirm\<close>. After the stock loop the handler writes the discount into
  the ticket, saves the counter, stores the order id in the ticket, saves the order, and
  only then asks for the payment component; the \<open>except\<close> clause reports and restores
  nothing.
\<close>

definition confirm :: "bot \<Rightarrow> int \<Rightarrow> actor \<Rightarrow> confirm_reply \<times> bot" where
  "confirm b channel user =
     (case map_of (active_tickets b) channel of
        None \<Rightarrow> (Cart_empty, b)
      | Some ts \<Rightarrow>
          if cart ts = [] then (Cart_empty, b)
          else (case validate_stock (products b) (cart ts) of
                  Some r \<Rightarrow> (r, b)
                | None \<Rightarrow>
                    let ts1 = apply_role_discount b user ts;
                        new_order_number = next_order_number b;
                        oid = ''ORD'' @ format_04d new_order_number;
                        b1 = (set_ticket b channel (ts1\<lparr>order_id := Some oid\<rparr>))
                               \<lparr>counters :=
                                  AList.update ''last_order_number'' new_order_number (counters b),
                                orders := AList.update oid (new_order channel user ts1) (orders b)\<rparr>
                    in (case payment_cog b of
                          Gateway_missing \<Rightarrow> (Gateway_not_loaded, b1)
                        | Gateway_raises \<Rightarrow> (Unexpected_error, b1)
                        | Gateway_ok \<Rightarrow> (Order_confirmed oid, b1))))"

section \<open>Cancelling a confirmed order\<close>

text \<open>
  \<open>"REDEEM-" in reason\<close> is a substring test, and
  \<open>re.search(r'\(([^)]+)\)', reason)\<close> returns the first non-empty run of characters other
  than a closing parenthesis that stands between an opening and a closing one.
\<close>

fun py_in :: "string \<Rightarrow> string \<Rightarrow> bool" where
  "py_in sub [] = (sub = [])"
| "py_in sub (c # cs) = (take (length sub) (c # cs) = sub \<or> py_in sub cs)"

fun paren_group :: "string \<Rightarrow> string option" where
  "paren_group [] = None"
| "paren_group (c # cs) =
     (if c = CHR ''(''
        \<and> takeWhile (\<lambda>x. x \<noteq> CHR '')'') cs \<noteq> []
        \<and> dropWhile (\<lambda>x. x \<noteq> CHR '')'') cs \<noteq> []
      then Some (takeWhile (\<lambda>x. x \<noteq> CHR '')'') cs)
      else paren_group cs)"

text \<open>
  The block of \<open>cancel_order\<close> that gives a redeemable code back, run on the registry
  \<open>discounts_db\<close> that \<open>load_json('discounts')\<close> returned: it runs only when the ticket's
  discount reason contains \<open>REDEEM-\<close>, looks the parenthesised text up in the registry, and
  saves the registry only when it changed the entry. The result is the registry it saves,
  or \<open>None\<close> when it saves nothing.
\<close>

definition restore_redeem_code ::
  "string option \<Rightarrow> int \<Rightarrow> (string \<times> discount_info) list
     \<Rightarrow> (string \<times> discount_info) list option" where
  "restore_redeem_code reason uid discounts_db =
     (case reason of
        None \<Rightarrow> None
      | Some r \<Rightarrow>
          if r \<noteq> [] \<and> py_in ''REDEEM-'' r then
            (case paren_group r of
               None \<Rightarrow> None
             | Some used_code \<Rightarrow>
                 (case map_of discounts_db used_code of
                    None \<Rightarrow> None
                  | Some info \<Rightarrow>
                      if d_type info = Some ''redeem'' \<and> d_used info = Some True
                         \<and> d_generated_by info = Some uid
                      then Some (AList.update used_code (info\<lparr>d_used := Some False\<rparr>) discounts_db)
                      else None))
          else None)"

datatype cancel_reply = Cancel_ticket_lost | No_order_yet | Cannot_cancel | Order_cancelled string

text \<open>
  \<open>ShoppingCartView.cancel_order\<close>. The four \<open>pop\<close> calls remove the keys \<open>order_id\<close>,
  \<open>discount\<close>, \<open>discount_reason\<close> and \<open>gift_recipient_id\<close> from the ticket.
  \<open>cancel_order_with\<close> is the handler with the registry that \<open>self.bot.load_json\<close> hands it
  as an argument; \<open>cancel_order\<close> is the handler on the store that main.py binds to the bot.
\<close>

definition cancel_order_with ::
  "bot \<Rightarrow> int \<Rightarrow> actor \<Rightarrow> (string \<times> discount_info) list \<Rightarrow> cancel_reply \<times> bot" where
  "cancel_order_with b channel user discounts_db =
     (case map_of (active_tickets b) channel of
        None \<Rightarrow> (Cancel_ticket_lost, b)
      | Some ts \<Rightarrow>
          (case order_id ts of
             None \<Rightarrow> (No_order_yet, b)
           | Some oid \<Rightarrow>
               if oid = [] then (No_order_yet, b)
               else (case map_of (orders b) oid of
                       None \<Rightarrow> (Cannot_cancel, b)
                     | Some order_to_cancel \<Rightarrow>
                         if o_status order_to_cancel = ''Pending Payment'' then
                           (Order_cancelled oid,
                            (set_ticket b channel
                               (ts\<lparr>order_id := None, discount := None,
                                   discount_reason := None, gift_recipient_id := None\<rparr>))
                             \<lparr>orders :=
                                AList.update oid
                                  (order_to_cancel\<lparr>o_status := ''Cancelled by User''\<rparr>) (orders b),
                              discounts :=
                                (case restore_redeem_code (discount_reason ts) (user_id user)
                                        discounts_db of
                                   None \<Rightarrow> discounts b
                                 | Some saved \<Rightarrow> saved)\<rparr>)
                         else (Cannot_cancel, b))))"

definition cancel_order :: "bot \<Rightarrow> int \<Rightarrow> actor \<Rightarrow> cancel_reply \<times> bot" where
  "cancel_order b channel user =
     cancel_order_with b channel user (load_discounts (discounts b))"

section \<open>Opening tickets\<close>

text \<open>
  What \<open>TicketSystem.create_ticket_thread\<close> learns about the thread of a registered
  ticket: \<open>get_channel\<close> finds it and \<open>fetch\<close> succeeds; \<open>get_channel\<close> returns nothing;
  \<open>fetch\<close> raises \<open>NotFound\<close> or \<open>HTTPException\<close>; or something else is raised, which is
  only logged. The platform is a parameter \<open>probe\<close> of the model, and so is the outcome of
  creating the new thread.
\<close>

datatype thread_probe = Thread_live | Not_in_cache | Fetch_not_found | Fetch_failed

datatype thread_result = Thread_created int | Thread_forbidden | Thread_error

datatype create_reply =
  Already_active int | No_thread_permission | Thread_creation_failed | Ticket_created int

text \<open>
  The loop over \<open>list(self.bot.active_tickets.items())\<close>: it walks the snapshot \<open>items\<close>
  and changes the registry \<open>reg\<close>; \<open>Some t\<close> is the thread that made the handler return.
\<close>

fun check_existing ::
  "(int \<Rightarrow> thread_probe) \<Rightarrow> int \<Rightarrow> (int \<times> ticket_state) list \<Rightarrow> (int \<times> ticket_state) list
     \<Rightarrow> int option \<times> (int \<times> ticket_state) list" where
  "check_existing probe uid [] reg = (None, reg)"
| "check_existing probe uid ((thread_id, state) # rest) reg =
     (if creator_id state = Some uid \<and> status state = Some ''Open'' then
        (case probe thread_id of
           Thread_live \<Rightarrow> (Some thread_id, reg)
         | Not_in_cache \<Rightarrow> check_existing probe uid rest (AList.delete thread_id reg)
         | Fetch_not_found \<Rightarrow> check_existing probe uid rest (AList.delete thread_id reg)
         | Fetch_failed \<Rightarrow> check_existing probe uid rest reg)
      else check_existing probe uid rest reg)"

definition initial_ticket :: "int \<Rightarrow> string option \<Rightarrow> ticket_state" where
  "initial_ticket uid cat =
     \<lparr>creator_id = Some uid, category = cat, status = Some ''Open'', cart = [],
      discount = Some 0, discount_reason = Some ''No Discount'', referral_info = None,
      order_id = None, gift_recipient_id = None\<rparr>"

definition create_ticket_thread ::
  "(int \<Rightarrow> thread_probe) \<Rightarrow> thread_result \<Rightarrow> bot \<Rightarrow> actor \<Rightarrow> string option
     \<Rightarrow> create_reply \<times> bot" where
  "create_ticket_thread probe created b user cat =
     (case check_existing probe (user_id user) (active_tickets b) (active_tickets b) of
        (Some t, reg) \<Rightarrow> (Already_active t, b\<lparr>active_tickets := reg\<rparr>)
      | (None, reg) \<Rightarrow>
          (case created of
             Thread_forbidden \<Rightarrow> (No_thread_permission, b\<lparr>active_tickets := reg\<rparr>)
           | Thread_error \<Rightarrow> (Thread_creation_failed, b\<lparr>active_tickets := reg\<rparr>)
           | Thread_created t \<Rightarrow>
               (Ticket_created t,
                b\<lparr>active_tickets := AList.update t (initial_ticket (user_id user) cat) reg\<rparr>)))"

text \<open>
  \<open>ProductManagement.execute_quick_buy\<close> (cogs/product\_management.py), used by the
  \<open>/quick_buy\<close> command and by the browser's add-to-cart button. \<open>product_id\<close> is the id
  after \<open>upper()\<close>; \<open>cog_loaded\<close> and \<open>panel_ok\<close> say whether the ticket cog and the panel
  channel were found. The stock is compared with 0 as it is stored, without \<open>int()\<close>.
\<close>

datatype quick_reply =
  Quick_not_found | Quick_out_of_stock | Quick_no_ticket_system | Quick_no_panel
| Quick_forbidden | Quick_error | Quick_created int

definition quick_ticket :: "int \<Rightarrow> string \<Rightarrow> product \<Rightarrow> ticket_state" where
  "quick_ticket uid product_id product =
     \<lparr>creator_id = Some uid, category = Some ''BUY'', status = Some ''Open'',
      cart = [(product_id,
               \<lparr>name = p_name product, price = price_or_zero (p_price product), quantity = 1\<rparr>)],
      discount = Some 0, discount_reason = None, referral_info = None,
      order_id = None, gift_recipient_id = None\<rparr>"

definition execute_quick_buy ::
  "bool \<Rightarrow> bool \<Rightarrow> thread_result \<Rightarrow> bot \<Rightarrow> actor \<Rightarrow> string \<Rightarrow> quick_reply \<times> bot" where
  "execute_quick_buy cog_loaded panel_ok created b user product_id =
     (case map_of (products b) product_id of
        None \<Rightarrow> (Quick_not_found, b)
      | Some product \<Rightarrow>
          if p_stock product = None \<or> p_stock product = Some (Stock 0) then (Quick_out_of_stock, b)
          else if \<not> cog_loaded then (Quick_no_ticket_system, b)
          else if \<not> panel_ok then (Quick_no_panel, b)
          else (case created of
                  Thread_forbidden \<Rightarrow> (Quick_forbidden, b)
                | Thread_error \<Rightarrow> (Quick_error, b)
                | Thread_created t \<Rightarrow>
                    (Quick_created t,
                     set_ticket b t (quick_ticket (user_id user) product_id product))))"

text \<open>
  A user's live open tickets: the registered tickets with status \<open>Open\<close> created by that
  user whose thread the platform still finds.
\<close>

definition live_open_tickets ::
  "(int \<Rightarrow> thread_probe) \<Rightarrow> int \<Rightarrow> (int \<times> ticket_state) list \<Rightarrow> int list" where
  "live_open_tickets probe uid reg =
     map fst (filter (\<lambda>(t, state). creator_id state = Some uid \<and> status state = Some ''Open''
                                  \<and> probe t = Thread_live) reg)"

section \<open>Sample data\<close>

text \<open>
  A small shop used to run the handlers on concrete inputs: buyer 7 holds the roles 901
  and 900, ticket 1 is the buyer's and carries two apples captured at 10 while the catalog
  now asks 20, tickets 2 and 3 belong to two other users, and the catalog also offers a
  banana at 7.
\<close>

definition alice :: actor where
  "alice = \<lparr>user_id = 7, is_member = True, roles = [901, 900]\<rparr>"

definition apples :: cart where
  "apples = [(''A'', \<lparr>name = ''Apple'', price = 10, quantity = 2\<rparr>)]"

definition alice_ticket :: ticket_state where
  "alice_ticket = (initial_ticket 7 (Some ''BUY''))\<lparr>cart := apples\<rparr>"

definition save5 :: discount_info where
  "save5 = \<lparr>d_type = Some ''promo'', d_discount_inr = Some 5, d_used = None,
            d_generated_by = None, d_max_uses = Some (Finite_uses 2), d_uses = Some 0,
            d_expires_at = None, d_is_active = Some True\<rparr>"

definition gift50 :: discount_info where
  "gift50 = \<lparr>d_type = Some ''redeem'', d_discount_inr = Some 50, d_used = Some False,
             d_generated_by = Some 7, d_max_uses = None, d_uses = None,
             d_expires_at = None, d_is_active = None\<rparr>"

definition shop :: bot where
  "shop =
     \<lparr>active_tickets =
        [(1, alice_ticket), (2, initial_ticket 8 (Some ''BUY'')),
         (3, initial_ticket 9 (Some ''BUY''))],
      products =
        [(''A'', \<lparr>p_name = ''Apple'', p_price = Some 20, p_stock = Some (Stock 50)\<rparr>),
         (''B'', \<lparr>p_name = ''Banana'', p_price = Some 7, p_stock = Some (Stock 1)\<rparr>)],
      orders = [],
      discounts = [(''SAVE5'', save5), (''GIFT50'', gift50), (''REDEEM-AB12CD'', gift50)],
      referrals = [(''REF-BOB'', Referrer_id 8)],
      counters = [],
      new_user_discount_inr = Some 25,
      role_based_discounts =
        [\<lparr>role_id = Some 901, discount_percent = Some 5\<rparr>,
         \<lparr>role_id = Some 900, discount_percent = Some 10\<rparr>],
      payment_cog = Gateway_ok\<rparr>"

definition offline_shop :: bot where
  "offline_shop = shop\<lparr>payment_cog := Gateway_missing\<rparr>"

text \<open>
  The same shop after the buyer applied a code worth 50, named user 8 as gift recipient
  and confirmed: order \<open>ORD0001\<close> waits for payment. In \<open>paid_shop\<close> it has been paid.
\<close>

definition pending_order :: order where
  "pending_order =
     \<lparr>o_user_id = 7, o_items = apples, o_status = ''Pending Payment'', o_discount = 50,
      o_discount_reason = ''Discount Code (GIFT50)'', o_gift_recipient_id = Some 8,
      o_channel_id = 1\<rparr>"

definition confirmed_ticket :: ticket_state where
  "confirmed_ticket =
     alice_ticket\<lparr>discount := Some 50, discount_reason := Some ''Discount Code (GIFT50)'',
       order_id := Some ''ORD0001'', gift_recipient_id := Some 8\<rparr>"

definition pending_shop :: bot where
  "pending_shop =
     shop\<lparr>active_tickets := [(1, confirmed_ticket)],
          orders := [(''ORD0001'', pending_order)],
          discounts := [(''SAVE5'', save5), (''GIFT50'', gift50\<lparr>d_used := Some True\<rparr>),
                        (''REDEEM-AB12CD'', gift50\<lparr>d_used := Some True\<rparr>)],
          counters := [(''last_order_number'', 1)]\<rparr>"

definition paid_shop :: bot where
  "paid_shop =
     pending_shop\<lparr>orders := [(''ORD0001'', pending_order\<lparr>o_status := ''Payment Received''\<rparr>)]\<rparr>"

text \<open>
  The buyer's ticket after the redeemable code \<open>GIFT50\<close> was applied, and a shop where the
  confirmed ticket was paid with the loyalty code \<open>REDEEM-AB12CD\<close>, which the registry
  last saved carries as used.
\<close>

definition after_apply :: bot where
  "after_apply = snd (on_submit shop 1 alice ''GIFT50'' 0)"


text \<open>
  A ticket of ten apples for the tier discount, the buyer's ticket as it is after
  \<open>GIFT50\<close> was applied, two more users, the states after the first and the second use of
  the promotional code \<open>SAVE5\<close>, and a shop where that code was switched off.
\<close>

definition tier_ticket :: ticket_state where
  "tier_ticket =
     alice_ticket\<lparr>cart := [(''A'', \<lparr>name = ''Apple'', price = 10, quantity = 10\<rparr>)]\<rparr>"

definition tier_shop :: bot where
  "tier_shop = shop\<lparr>active_tickets := [(1, tier_ticket)]\<rparr>"

definition coded_ticket :: ticket_state where
  "coded_ticket =
     alice_ticket\<lparr>discount := Some 50, discount_reason := Some ''Discount Code (GIFT50)''\<rparr>"






section \<open>Notions the claims are stated with\<close>

text \<open>
  The tiers an actor holds are the configured entries that carry a role id and a
  percentage and whose role the actor has; \<open>held_percents\<close> lists their percentages.
\<close>

definition held_tier :: "actor \<Rightarrow> role_discount \<Rightarrow> bool" where
  "held_tier user r =
     (case (role_id r, discount_percent r) of
        (Some rid, Some p) \<Rightarrow> rid \<noteq> 0 \<and> rid \<in> set (roles user)
      | _ \<Rightarrow> False)"

definition held_percents :: "bot \<Rightarrow> actor \<Rightarrow> rat list" where
  "held_percents b user = map percent_key (filter (held_tier user) (role_based_discounts b))"



text \<open>A registered ticket that a user created and that is still open.\<close>

definition open_ticket_of :: "int \<Rightarrow> ticket_state \<Rightarrow> bool" where
  "open_ticket_of uid state = (creator_id state = Some uid \<and> status state = Some ''Open'')"

section \<open>Basic facts about the stores\<close>

lemma ticket_of_set_ticket:
  "map_of (active_tickets (set_ticket b channel ts)) channel = Some ts"
  by (simp add: set_ticket_def update_conv')

lemma set_ticket_fields [simp]:
  "products (set_ticket b channel ts) = products b"
  "orders (set_ticket b channel ts) = orders b"
  "discounts (set_ticket b channel ts) = discounts b"
  "counters (set_ticket b channel ts) = counters b"
  by (simp_all add: set_ticket_def)

lemma cart_apply_role_discount [simp]: "cart (apply_role_discount b user ts) = cart ts"
  by (simp add: apply_role_discount_def Let_def split: option.splits prod.splits)

















text \<open>The sorted tiers and the loop that picks the first one the actor holds.\<close>

lemma sorted_role_discounts_desc:
  "sorted_wrt (\<lambda>x y. percent_key y \<le> percent_key x) (sorted_role_discounts cfg)"
proof -
  have "sorted (map percent_key (sort_key percent_key (rev cfg)))"
    by (rule sorted_sort_key)
  then have "sorted_wrt (\<lambda>x y. percent_key x \<le> percent_key y) (sort_key percent_key (rev cfg))"
    by (simp add: sorted_map)
  then show ?thesis
    by (simp add: sorted_role_discounts_def sorted_wrt_rev)
qed

lemma set_sorted_role_discounts: "set (sorted_role_discounts cfg) = set cfg"
  by (simp add: sorted_role_discounts_def)

lemma first_held_none:
  "(\<forall>r \<in> set xs. \<not> held_tier user r) \<Longrightarrow> first_held (roles user) xs = None"
  by (induction xs) (auto simp add: held_tier_def split: option.splits)

lemma first_held_best:
  assumes "sorted_wrt (\<lambda>x y. percent_key y \<le> percent_key x) xs"
      and "\<exists>r \<in> set xs. held_tier user r"
  shows "\<exists>rid p. first_held (roles user) xs = Some (rid, p)
           \<and> p \<in> percent_key ` {r \<in> set xs. held_tier user r}
           \<and> (\<forall>r \<in> set xs. held_tier user r \<longrightarrow> percent_key r \<le> p)"
  using assms
proof (induction xs)
  case Nil
  then show ?case by simp
next
  case (Cons r rest)
  show ?case
  proof (cases "held_tier user r")
    case True
    then obtain rid p where rp: "role_id r = Some rid" "discount_percent r = Some p"
      "rid \<noteq> 0" "rid \<in> set (roles user)"
      by (auto simp add: held_tier_def split: option.splits)
    then have f: "first_held (roles user) (r # rest) = Some (rid, p)" by simp
    have k: "percent_key r = p" using rp by (simp add: percent_key_def)
    have "\<forall>y \<in> set rest. percent_key y \<le> p" using Cons.prems(1) k by auto
    with f k True show ?thesis by (auto simp add: image_iff)
  next
    case False
    then have f: "first_held (roles user) (r # rest) = first_held (roles user) rest"
      by (auto simp add: held_tier_def split: option.splits)
    from Cons.prems False have "sorted_wrt (\<lambda>x y. percent_key y \<le> percent_key x) rest"
      and "\<exists>r \<in> set rest. held_tier user r" by auto
    from Cons.IH [OF this] obtain rid p where
      "first_held (roles user) rest = Some (rid, p)"
      "p \<in> percent_key ` {r \<in> set rest. held_tier user r}"
      "\<forall>r \<in> set rest. held_tier user r \<longrightarrow> percent_key r \<le> p"
      by blast
    with f False show ?thesis by (auto simp add: image_iff)
  qed
qed

lemma first_held_max:
  assumes "held_percents b user \<noteq> []"
  shows "\<exists>rid. first_held (roles user) (sorted_role_discounts (role_based_discounts b))
           = Some (rid, Max (set (held_percents b user)))"
proof -
  let ?xs = "sorted_role_discounts (role_based_discounts b)"
  from assms have ex: "\<exists>r \<in> set ?xs. held_tier user r"
    by (auto simp add: held_percents_def set_sorted_role_discounts filter_empty_conv)
  from first_held_best [OF sorted_role_discounts_desc ex] obtain rid p where
    f: "first_held (roles user) ?xs = Some (rid, p)"
    and m: "p \<in> percent_key ` {r \<in> set ?xs. held_tier user r}"
    and u: "\<forall>r \<in> set ?xs. held_tier user r \<longrightarrow> percent_key r \<le> p"
    by blast
  have s: "set (held_percents b user) = percent_key ` {r \<in> set ?xs. held_tier user r}"
    by (auto simp add: held_percents_def set_sorted_role_discounts)
  have "Max (set (held_percents b user)) = p"
  proof (rule Max_eqI)
    show "finite (set (held_percents b user))" by simp
    show "p \<in> set (held_percents b user)" using m s by simp
    fix y assume "y \<in> set (held_percents b user)"
    then show "y \<le> p" using u s by auto
  qed
  with f show ?thesis by blast
qed

lemma apply_role_discount_manual:
  "0 < discount_or_zero ts \<Longrightarrow>
     apply_role_discount b user ts = ts\<lparr>discount := Some (discount_or_zero ts)\<rparr>"
  by (simp add: apply_role_discount_def)

lemma apply_role_discount_tier:
  assumes "discount_or_zero ts = 0" and "is_member user" and "held_percents b user \<noteq> []"
  shows "discount_or_zero (apply_role_discount b user ts)
           = (let best = cart_total (cart ts) * (Max (set (held_percents b user)) / 100)
              in if 0 < best then best else 0)
       \<and> (\<not> 0 < cart_total (cart ts) * (Max (set (held_percents b user)) / 100) \<longrightarrow>
            discount_reason (apply_role_discount b user ts) = discount_reason ts)"
proof -
  from first_held_max [OF assms(3)] obtain rid where
    "first_held (roles user) (sorted_role_discounts (role_based_discounts b))
       = Some (rid, Max (set (held_percents b user)))" ..
  with assms(1,2) show ?thesis
    by (simp add: apply_role_discount_def Let_def discount_or_zero_def)
qed







text \<open>The scan of the registry before a ticket is opened.\<close>

lemma check_existing_refuses:
  assumes "(t, state) \<in> set items" and "open_ticket_of uid state" and "probe t = Thread_live"
  shows "\<exists>t'. fst (check_existing probe uid items reg) = Some t' \<and> probe t' = Thread_live"
  using assms
proof (induction items arbitrary: reg)
  case Nil
  then show ?case by simp
next
  case (Cons entry rest)
  obtain t0 s0 where e: "entry = (t0, s0)" by (cases entry)
  show ?case
  proof (cases "open_ticket_of uid s0 \<and> probe t0 = Thread_live")
    case True
    then show ?thesis using e by (auto simp add: open_ticket_of_def)
  next
    case False
    with Cons.prems e have "(t, state) \<in> set rest" by auto
    from Cons.IH [OF this Cons.prems(2,3)] show ?thesis
      using e False by (auto simp add: open_ticket_of_def split: thread_probe.splits)
  qed
qed

lemma check_existing_subset: "set (snd (check_existing probe uid items reg)) \<subseteq> set reg"
proof (induction items arbitrary: reg)
  case Nil
  then show ?case by simp
next
  case (Cons entry rest)
  obtain t0 s0 where e: "entry = (t0, s0)" by (cases entry)
  have d: "set (AList.delete t0 reg) \<subseteq> set reg"
    by (auto simp add: AList.delete_eq)
  have "set (snd (check_existing probe uid rest (AList.delete t0 reg))) \<subseteq> set reg"
    using Cons.IH [of "AList.delete t0 reg"] d by blast
  then show ?case
    using e Cons.IH [of reg] by (auto split: thread_probe.splits)
qed

lemma check_existing_none_no_live:
  assumes "fst (check_existing probe uid items reg) = None"
      and "(t, state) \<in> set items" and "open_ticket_of uid state"
  shows "probe t \<noteq> Thread_live"
  using check_existing_refuses [where probe = probe and reg = reg, OF assms(2,3)] assms(1)
  by auto

lemma filter_update_none:
  assumes "\<forall>e \<in> set al. \<not> P e"
  shows "filter P (AList.update k v al) = (if P (k, v) then [(k, v)] else [])"
  using assms by (induction al) auto

section \<open>The cart and the order lock\<close>



text \<open>
  Claim C1, as the code has it. \<open>ProductSelect.callback\<close> never reads \<open>order_id\<close>: whatever
  the ticket's \<open>order_id\<close> holds, the handler gives the same reply and leaves the same cart
  as it does on the ticket without that value. A confirmed order therefore does not make
  the handler reject an add; after Confirm the cart is guarded only by the disabled
  controls of the cart message.
\<close>

theorem add_item_ignores_order_id:
  assumes "map_of (active_tickets b) channel = Some ts"
  shows "fst (callback (set_ticket b channel (ts\<lparr>order_id := oid\<rparr>)) channel pid)
           = fst (callback b channel pid)
       \<and> map_option cart
           (map_of (active_tickets
              (snd (callback (set_ticket b channel (ts\<lparr>order_id := oid\<rparr>)) channel pid))) channel)
           = map_option cart (map_of (active_tickets (snd (callback b channel pid))) channel)"
  using assms
  by (auto simp add: callback_def ticket_of_set_ticket split: option.splits)

text \<open>
  Counterexample to C1 as stated: the buyer's ticket carries order \<open>ORD0001\<close>, and selecting
  the apple is answered with success and turns the two apples of the cart into three.
\<close>

theorem add_item_on_confirmed_ticket:
  "order_id (alice_ticket\<lparr>order_id := Some ''ORD0001''\<rparr>) = Some ''ORD0001''
   \<and> callback (set_ticket shop 1 (alice_ticket\<lparr>order_id := Some ''ORD0001''\<rparr>)) 1 ''A''
       = (Added,
          set_ticket shop 1
            (alice_ticket\<lparr>order_id := Some ''ORD0001'',
               cart := [(''A'', \<lparr>name = ''Apple'', price = 10, quantity = 3\<rparr>)]\<rparr>))
   \<and> cart alice_ticket = [(''A'', \<lparr>name = ''Apple'', price = 10, quantity = 2\<rparr>)]"
  by (simp add: callback_def shop_def alice_ticket_def initial_ticket_def apples_def
      quantity_in_cart_def add_to_cart_def set_ticket_def)

text \<open>Witness for the amended C1, on the same ticket.\<close>

theorem add_item_ignores_order_id_witness:
  "map_of (active_tickets shop) 1 = Some alice_ticket
   \<and> fst (callback (set_ticket shop 1 (alice_ticket\<lparr>order_id := Some ''ORD0001''\<rparr>)) 1 ''A'')
       = Added
   \<and> map_option cart
       (map_of (active_tickets
          (snd (callback (set_ticket shop 1 (alice_ticket\<lparr>order_id := Some ''ORD0001''\<rparr>))
                  1 ''A''))) 1)
       = Some [(''A'', \<lparr>name = ''Apple'', price = 10, quantity = 3\<rparr>)]"
proof -
  have h: "map_of (active_tickets shop) 1 = Some alice_ticket"
    by (simp add: shop_def)
  have c: "callback shop 1 ''A''
      = (Added, set_ticket shop 1
          (alice_ticket\<lparr>cart := [(''A'', \<lparr>name = ''Apple'', price = 10, quantity = 3\<rparr>)]\<rparr>))"
    by (simp add: callback_def shop_def alice_ticket_def initial_ticket_def apples_def
        quantity_in_cart_def add_to_cart_def)
  from add_item_ignores_order_id [OF h, of "Some ''ORD0001''" "''A''"] h c show ?thesis
    by (simp add: ticket_of_set_ticket)
qed

text \<open>
  Claim C9. The grand total of the cart display is the cart's subtotal less the discount,
  cut off at 0, for every non-empty cart and for every empty cart whose discount is not
  negative (the handlers only ever store positive discounts); and it is never negative.
\<close>

theorem grand_total_clamped:
  "((cart ts = [] \<longrightarrow> 0 \<le> discount_or_zero ts) \<longrightarrow>
      displayed_total ts = max 0 (cart_total (cart ts) - discount_or_zero ts))
   \<and> 0 \<le> displayed_total ts"
  by (auto simp add: displayed_total_def grand_total_def cart_total_def)

text \<open>
  Witness for C9: two apples at 10 with a discount of 50 display 0, and the subtotal is 20.
\<close>

theorem grand_total_clamped_witness:
  "cart confirmed_ticket \<noteq> []
   \<and> cart_total (cart confirmed_ticket) = 20
   \<and> discount_or_zero confirmed_ticket = 50
   \<and> displayed_total confirmed_ticket = 0"
proof -
  have h: "cart confirmed_ticket \<noteq> []"
    by (simp add: confirmed_ticket_def alice_ticket_def apples_def)
  have t: "cart_total (cart confirmed_ticket) = 20"
    by (simp add: confirmed_ticket_def alice_ticket_def apples_def cart_total_def)
  have d: "discount_or_zero confirmed_ticket = 50"
    by (simp add: confirmed_ticket_def discount_or_zero_def)
  from grand_total_clamped [of confirmed_ticket] h t d show ?thesis
    by simp
qed

section \<open>Discount codes\<close>

text \<open>
  Claim C7. On a ticket whose discount is greater than 0, submitting any code (a referral
  code, a redeemable code, a promotional code or anything else) is answered with the
  rejection for an already applied discount, and nothing changes: neither the ticket, with
  its discount and discount reason, nor any collection.
\<close>

theorem second_discount_rejected:
  assumes "map_of (active_tickets b) channel = Some ts"
      and "discount ts = Some d" and "0 < d"
  shows "on_submit b channel user code now = (Already_discounted, b)"
  using assms by (simp add: on_submit_def discount_or_zero_def)

text \<open>
  Witness for C7: the confirmed ticket carries a discount of 50, and the promotional code
  \<open>SAVE5\<close> is refused on it.
\<close>

theorem second_discount_rejected_witness:
  "map_of (active_tickets pending_shop) 1 = Some confirmed_ticket
   \<and> discount confirmed_ticket = Some 50 \<and> (0::rat) < 50
   \<and> on_submit pending_shop 1 alice ''SAVE5'' 0 = (Already_discounted, pending_shop)"
proof -
  have h1: "map_of (active_tickets pending_shop) 1 = Some confirmed_ticket"
    by (simp add: pending_shop_def)
  have h2: "discount confirmed_ticket = Some 50"
    by (simp add: confirmed_ticket_def)
  have h3: "(0::rat) < 50" by simp
  from second_discount_rejected [OF h1 h2 h3, of alice "''SAVE5''" 0] h1 h2 show ?thesis
    by simp
qed

section \<open>Confirm and Cancel\<close>

text \<open>
  Claim C2, as the code has it. When Confirm has passed the stock re-validation and the
  payment component is missing or raises, the failure is reported to the actor, but
  nothing is taken back: the ticket carries the newly allocated order id, the counter has
  advanced, and the order with status \<open>Pending Payment\<close>, the buyer and the cart's items
  stays in the order collection. The cart itself is unchanged.
\<close>

theorem confirm_failure_keeps_order:
  assumes "map_of (active_tickets b) channel = Some ts"
      and "cart ts \<noteq> []"
      and "validate_stock (products b) (cart ts) = None"
      and "payment_cog b \<noteq> Gateway_ok"
  shows "\<exists>b' ts' ord.
           (confirm b channel user = (Gateway_not_loaded, b')
            \<or> confirm b channel user = (Unexpected_error, b'))
         \<and> map_of (active_tickets b') channel = Some ts'
         \<and> order_id ts' = Some (''ORD'' @ format_04d (next_order_number b))
         \<and> cart ts' = cart ts
         \<and> map_of (counters b') ''last_order_number'' = Some (next_order_number b)
         \<and> map_of (orders b') (''ORD'' @ format_04d (next_order_number b)) = Some ord
         \<and> o_status ord = ''Pending Payment''
         \<and> o_user_id ord = user_id user
         \<and> o_items ord = cart ts"
  using assms
  by (cases "payment_cog b")
     (simp_all add: confirm_def Let_def ticket_of_set_ticket update_conv' new_order_def)

text \<open>
  Counterexample to C2 as stated: without a payment component, Confirm on the buyer's
  ticket, which carried no order id in a shop without orders, is answered with the
  gateway error, and afterwards the ticket carries \<open>ORD0001\<close> and that order is on record.
\<close>

theorem confirm_without_gateway_leaves_order:
  "map_of (active_tickets offline_shop) 1 = Some alice_ticket
   \<and> order_id alice_ticket = None
   \<and> orders offline_shop = []
   \<and> validate_stock (products offline_shop) (cart alice_ticket) = None
   \<and> fst (confirm offline_shop 1 alice) = Gateway_not_loaded
   \<and> map_option order_id (map_of (active_tickets (snd (confirm offline_shop 1 alice))) 1)
       = Some (Some ''ORD0001'')
   \<and> map_option o_status (map_of (orders (snd (confirm offline_shop 1 alice))) ''ORD0001'')
       = Some ''Pending Payment''"
proof -
  have f: "format_04d 1 = ''0001''" by code_simp
  show ?thesis
    by (simp add: offline_shop_def shop_def alice_ticket_def initial_ticket_def apples_def
      confirm_def Let_def next_order_number_def f set_ticket_def new_order_def)
qed

text \<open>Witness for the amended C2, in the same shop.\<close>

theorem confirm_failure_keeps_order_witness:
  "map_of (active_tickets offline_shop) 1 = Some alice_ticket
   \<and> cart alice_ticket \<noteq> []
   \<and> validate_stock (products offline_shop) (cart alice_ticket) = None
   \<and> payment_cog offline_shop \<noteq> Gateway_ok
   \<and> (\<exists>b' ts' ord.
           (confirm offline_shop 1 alice = (Gateway_not_loaded, b')
            \<or> confirm offline_shop 1 alice = (Unexpected_error, b'))
         \<and> map_of (active_tickets b') 1 = Some ts'
         \<and> order_id ts' = Some ''ORD0001''
         \<and> cart ts' = cart alice_ticket
         \<and> map_of (counters b') ''last_order_number'' = Some 1
         \<and> map_of (orders b') ''ORD0001'' = Some ord
         \<and> o_status ord = ''Pending Payment''
         \<and> o_user_id ord = 7
         \<and> o_items ord = cart alice_ticket)"
proof -
  have h1: "map_of (active_tickets offline_shop) 1 = Some alice_ticket"
    by (simp add: offline_shop_def shop_def)
  have h2: "cart alice_ticket \<noteq> []"
    by (simp add: alice_ticket_def apples_def)
  have h3: "validate_stock (products offline_shop) (cart alice_ticket) = None"
    by (simp add: offline_shop_def shop_def alice_ticket_def apples_def)
  have h4: "payment_cog offline_shop \<noteq> Gateway_ok"
    by (simp add: offline_shop_def)
  have n: "next_order_number offline_shop = 1"
    by (simp add: next_order_number_def offline_shop_def shop_def)
  have f: "format_04d 1 = ''0001''" by code_simp
  have u: "user_id alice = 7" by (simp add: alice_def)
  from confirm_failure_keeps_order [OF h1 h2 h3 h4, of alice] h1 h2 h3 h4 show ?thesis
    by (simp add: n f u)
qed

text \<open>
  Claim C3. On a ticket linked to an order of the order collection, Cancel is refused
  without any change when the order's status is anything but \<open>Pending Payment\<close>; and when
  it is \<open>Pending Payment\<close>, Cancel succeeds, sets the order's status to
  \<open>Cancelled by User\<close>, removes \<open>order_id\<close>, \<open>discount\<close>, \<open>discount_reason\<close> and
  \<open>gift_recipient_id\<close> from the ticket and leaves the cart as it was.
\<close>

theorem cancel_by_order_status:
  assumes "map_of (active_tickets b) channel = Some ts"
      and "order_id ts = Some oid" and "oid \<noteq> []"
      and "map_of (orders b) oid = Some ord"
  shows "(o_status ord \<noteq> ''Pending Payment'' \<longrightarrow>
            cancel_order b channel user = (Cannot_cancel, b))
       \<and> (o_status ord = ''Pending Payment'' \<longrightarrow>
            (\<exists>b' ts'.
               cancel_order b channel user = (Order_cancelled oid, b')
             \<and> map_of (orders b') oid = Some (ord\<lparr>o_status := ''Cancelled by User''\<rparr>)
             \<and> map_of (active_tickets b') channel = Some ts'
             \<and> order_id ts' = None \<and> discount ts' = None
             \<and> discount_reason ts' = None \<and> gift_recipient_id ts' = None
             \<and> cart ts' = cart ts))"
  using assms
  by (simp add: cancel_order_def cancel_order_with_def ticket_of_set_ticket update_conv')

text \<open>
  Witness for C3: order \<open>ORD0001\<close> is cancelled while it waits for payment, and the same
  Cancel is refused once it is paid.
\<close>

theorem cancel_by_order_status_witness:
  "map_of (active_tickets pending_shop) 1 = Some confirmed_ticket
   \<and> map_of (active_tickets paid_shop) 1 = Some confirmed_ticket
   \<and> order_id confirmed_ticket = Some ''ORD0001'' \<and> ''ORD0001'' \<noteq> []
   \<and> map_of (orders pending_shop) ''ORD0001'' = Some pending_order
   \<and> map_of (orders paid_shop) ''ORD0001'' = Some (pending_order\<lparr>o_status := ''Payment Received''\<rparr>)
   \<and> cancel_order paid_shop 1 alice = (Cannot_cancel, paid_shop)
   \<and> (\<exists>b' ts'.
         cancel_order pending_shop 1 alice = (Order_cancelled ''ORD0001'', b')
       \<and> map_of (orders b') ''ORD0001'' = Some (pending_order\<lparr>o_status := ''Cancelled by User''\<rparr>)
       \<and> map_of (active_tickets b') 1 = Some ts'
       \<and> order_id ts' = None \<and> discount ts' = None
       \<and> discount_reason ts' = None \<and> gift_recipient_id ts' = None
       \<and> cart ts' = apples)"
proof -
  have t1: "map_of (active_tickets pending_shop) 1 = Some confirmed_ticket"
    by (simp add: pending_shop_def)
  have t2: "map_of (active_tickets paid_shop) 1 = Some confirmed_ticket"
    by (simp add: paid_shop_def pending_shop_def)
  have i: "order_id confirmed_ticket = Some ''ORD0001''"
    by (simp add: confirmed_ticket_def)
  have n: "''ORD0001'' \<noteq> []" by simp
  have o1: "map_of (orders pending_shop) ''ORD0001'' = Some pending_order"
    by (simp add: pending_shop_def)
  have o2: "map_of (orders paid_shop) ''ORD0001''
      = Some (pending_order\<lparr>o_status := ''Payment Received''\<rparr>)"
    by (simp add: paid_shop_def)
  have s1: "o_status pending_order = ''Pending Payment''"
    by (simp add: pending_order_def)
  have c: "cart confirmed_ticket = apples"
    by (simp add: confirmed_ticket_def alice_ticket_def)
  from cancel_by_order_status [OF t1 i n o1, of alice]
       cancel_by_order_status [OF t2 i n o2, of alice]
       t1 t2 i o1 o2 s1 c
  show ?thesis by simp
qed



text \<open>
  Claim C5. When Confirm passes its checks on a ticket whose discount is 0 and the actor
  is a guild member holding at least one configured tier, the discount of the resulting
  order is the cart subtotal times the highest percentage among the held tiers (as a
  fraction of 100) if that amount is greater than 0, and 0 otherwise, in which case the
  discount reason stays as it was. When the discount is greater than 0 at confirm time, the
  order carries exactly that discount and its reason, and no tier discount is added.
\<close>

theorem confirm_tier_discount:
  assumes "map_of (active_tickets b) channel = Some ts"
      and "cart ts \<noteq> []"
      and "validate_stock (products b) (cart ts) = None"
  shows "\<exists>reply b' ts' ord.
           confirm b channel user = (reply, b')
         \<and> map_of (active_tickets b') channel = Some ts'
         \<and> map_of (orders b') (''ORD'' @ format_04d (next_order_number b)) = Some ord
         \<and> o_discount ord = discount_or_zero ts'
         \<and> (discount_or_zero ts = 0 \<and> is_member user \<and> held_percents b user \<noteq> [] \<longrightarrow>
              o_discount ord
                = (let best = cart_total (cart ts) * (Max (set (held_percents b user)) / 100)
                   in if 0 < best then best else 0)
              \<and> (\<not> 0 < cart_total (cart ts) * (Max (set (held_percents b user)) / 100) \<longrightarrow>
                   discount_reason ts' = discount_reason ts))
         \<and> (0 < discount_or_zero ts \<longrightarrow>
              o_discount ord = discount_or_zero ts
              \<and> discount_reason ts' = discount_reason ts
              \<and> o_discount_reason ord
                  = (case discount_reason ts of None \<Rightarrow> ''No Discount'' | Some r \<Rightarrow> r))"
proof -
  let ?ts1 = "apply_role_discount b user ts"
  let ?oid = "''ORD'' @ format_04d (next_order_number b)"
  let ?b' = "snd (confirm b channel user)"
  have t: "map_of (active_tickets ?b') channel = Some (?ts1\<lparr>order_id := Some ?oid\<rparr>)"
    using assms
    by (cases "payment_cog b")
       (simp_all add: confirm_def Let_def ticket_of_set_ticket update_conv')
  have o: "map_of (orders ?b') ?oid = Some (new_order channel user ?ts1)"
    using assms
    by (cases "payment_cog b") (simp_all add: confirm_def Let_def update_conv')
  have d: "o_discount (new_order channel user ?ts1)
             = discount_or_zero (?ts1\<lparr>order_id := Some ?oid\<rparr>)"
    by (simp add: new_order_def discount_or_zero_def)
  have tier: "discount_or_zero ts = 0 \<and> is_member user \<and> held_percents b user \<noteq> [] \<longrightarrow>
      o_discount (new_order channel user ?ts1)
        = (let best = cart_total (cart ts) * (Max (set (held_percents b user)) / 100)
           in if 0 < best then best else 0)
      \<and> (\<not> 0 < cart_total (cart ts) * (Max (set (held_percents b user)) / 100) \<longrightarrow>
           discount_reason (?ts1\<lparr>order_id := Some ?oid\<rparr>) = discount_reason ts)"
    using apply_role_discount_tier [of ts user b] by (simp add: new_order_def)
  have manual: "0 < discount_or_zero ts \<longrightarrow>
      o_discount (new_order channel user ?ts1) = discount_or_zero ts
      \<and> discount_reason (?ts1\<lparr>order_id := Some ?oid\<rparr>) = discount_reason ts
      \<and> o_discount_reason (new_order channel user ?ts1)
          = (case discount_reason ts of None \<Rightarrow> ''No Discount'' | Some r \<Rightarrow> r)"
    by (simp add: apply_role_discount_manual new_order_def discount_or_zero_def)
  have "confirm b channel user = (fst (confirm b channel user), ?b')" by simp
  with t o d tier manual show ?thesis by blast
qed

text \<open>
  Witness for C5: the buyer holds the tiers of 5 and 10 percent, the subtotal is 100 and
  no code was applied, so the order carries a discount of 10; and on the ticket with the
  code worth 50 the order carries 50.
\<close>

theorem confirm_tier_discount_witness:
  "map_of (active_tickets tier_shop) 1 = Some tier_ticket
   \<and> cart tier_ticket \<noteq> []
   \<and> validate_stock (products tier_shop) (cart tier_ticket) = None
   \<and> discount_or_zero tier_ticket = 0 \<and> is_member alice
   \<and> held_percents tier_shop alice = [5, 10]
   \<and> cart_total (cart tier_ticket) = 100
   \<and> map_option o_discount (map_of (orders (snd (confirm tier_shop 1 alice))) ''ORD0001'')
       = Some 10
   \<and> map_of (active_tickets after_apply) 1 = Some coded_ticket
   \<and> discount_or_zero coded_ticket = 50
   \<and> map_option o_discount (map_of (orders (snd (confirm after_apply 1 alice))) ''ORD0001'')
       = Some 50"
proof -
  have f: "format_04d 1 = ''0001''" by code_simp
  have t1: "map_of (active_tickets tier_shop) 1 = Some tier_ticket"
    by (simp add: tier_shop_def)
  have c1: "cart tier_ticket \<noteq> []"
    by (simp add: tier_ticket_def)
  have v1: "validate_stock (products tier_shop) (cart tier_ticket) = None"
    by (simp add: tier_shop_def shop_def tier_ticket_def)
  have z1: "discount_or_zero tier_ticket = 0"
    by (simp add: tier_ticket_def alice_ticket_def initial_ticket_def discount_or_zero_def)
  have m1: "is_member alice" by (simp add: alice_def)
  have h1: "held_percents tier_shop alice = [5, 10]"
    by (simp add: held_percents_def tier_shop_def shop_def held_tier_def alice_def
        percent_key_def)
  have s1: "cart_total (cart tier_ticket) = 100"
    by (simp add: tier_ticket_def cart_total_def)
  have n1: "next_order_number tier_shop = 1"
    by (simp add: next_order_number_def tier_shop_def shop_def)
  from confirm_tier_discount [OF t1 c1 v1, of alice] z1 m1 h1 s1 n1 f
  have r1: "map_option o_discount (map_of (orders (snd (confirm tier_shop 1 alice))) ''ORD0001'')
      = Some 10"
    by auto
  have t2: "map_of (active_tickets after_apply) 1 = Some coded_ticket"
    by code_simp
  have c2: "cart coded_ticket \<noteq> []"
    by (simp add: coded_ticket_def alice_ticket_def apples_def)
  have v2: "validate_stock (products after_apply) (cart coded_ticket) = None"
    by code_simp
  have z2: "discount_or_zero coded_ticket = 50"
    by (simp add: coded_ticket_def discount_or_zero_def)
  have n2: "next_order_number after_apply = 1"
    by code_simp
  from confirm_tier_discount [OF t2 c2 v2, of alice] z2 n2 f
  have r2: "map_option o_discount (map_of (orders (snd (confirm after_apply 1 alice))) ''ORD0001'')
      = Some 50"
    by auto
  from t1 c1 v1 z1 m1 h1 s1 r1 t2 z2 r2 show ?thesis by simp
qed

section \<open>Promotional codes\<close>



section \<open>One open ticket per user\<close>

text \<open>
  What \<open>create_ticket_thread\<close> does for claim C10: it refuses while the registry holds an
  open ticket of the user whose thread is live, and a ticket it opens is afterwards the
  user's only live open ticket, the stale entries of the user being removed on the way.
\<close>

lemma create_refused_while_live:
  assumes "(t, state) \<in> set (active_tickets b)"
      and "creator_id state = Some (user_id user)" and "status state = Some ''Open''"
      and "probe t = Thread_live"
  shows "\<exists>t'. fst (create_ticket_thread probe created b user cat) = Already_active t'
              \<and> probe t' = Thread_live"
proof -
  have "open_ticket_of (user_id user) state"
    using assms(2,3) by (simp add: open_ticket_of_def)
  from check_existing_refuses [where probe = probe and reg = "active_tickets b",
      OF assms(1) this assms(4)]
  obtain t' where "fst (check_existing probe (user_id user) (active_tickets b) (active_tickets b))
      = Some t'" and "probe t' = Thread_live" by blast
  then show ?thesis
    by (auto simp add: create_ticket_thread_def split: prod.splits)
qed

lemma created_ticket_is_only_live_one:
  assumes "create_ticket_thread probe created b user cat = (Ticket_created t, b')"
  shows "live_open_tickets probe (user_id user) (active_tickets b')
           = (if probe t = Thread_live then [t] else [])"
proof -
  let ?uid = "user_id user"
  let ?c = "check_existing probe ?uid (active_tickets b) (active_tickets b)"
  let ?P = "\<lambda>(t, state). creator_id state = Some ?uid \<and> status state = Some ''Open''
                                  \<and> probe t = Thread_live"
  from assms have n: "fst ?c = None" and c: "created = Thread_created t"
    and b': "active_tickets b' = AList.update t (initial_ticket ?uid cat) (snd ?c)"
    by (auto simp add: create_ticket_thread_def split: prod.splits option.splits
        thread_result.splits)
  have "\<forall>e \<in> set (snd ?c). \<not> ?P e"
  proof
    fix e assume m: "e \<in> set (snd ?c)"
    obtain t0 s0 where e: "e = (t0, s0)" by (cases e)
    from m check_existing_subset [of probe ?uid "active_tickets b" "active_tickets b"]
    have "(t0, s0) \<in> set (active_tickets b)" using e by blast
    from check_existing_none_no_live [OF n this]
    show "\<not> ?P e" using e by (auto simp add: open_ticket_of_def)
  qed
  from filter_update_none [of "snd ?c" ?P t "initial_ticket ?uid cat", OF this]
  show ?thesis
    by (simp add: live_open_tickets_def b' initial_ticket_def)
qed

text \<open>
  Claim C10 at the input where the code departs from it. The buyer has the live open
  ticket 1, and \<open>create_ticket_thread\<close> refuses a second one; \<open>execute_quick_buy\<close>, which
  has no such test, opens thread 4 for the same buyer, who then has two live open tickets.
\<close>

theorem quick_buy_opens_second_ticket:
  "live_open_tickets (\<lambda>t. Thread_live) 7 (active_tickets shop) = [1]
   \<and> fst (create_ticket_thread (\<lambda>t. Thread_live) (Thread_created 4) shop alice (Some ''BUY''))
       = Already_active 1
   \<and> fst (execute_quick_buy True True (Thread_created 4) shop alice ''A'') = Quick_created 4
   \<and> live_open_tickets (\<lambda>t. Thread_live) 7
       (active_tickets (snd (execute_quick_buy True True (Thread_created 4) shop alice ''A'')))
       = [1, 4]"
  by code_simp

end
